theory Spec2Isabelle
  imports Main
begin

section \<open>The user collection (models/User.js)\<close>

text \<open>
  Timestamps are milliseconds since the epoch (what \<open>Date.now()\<close> returns and what a
  stored \<open>Date\<close> compares as). A handler reads the clock once per request in the model:
  the parameter \<open>now\<close>. A nullable field is an \<open>option\<close>; a stored \<open>Date\<close> is an
  object and so truthy whenever it is not null. The collection is a list of documents;
  reading and writing it does not fail, except where a new document is rejected. An
  email is the string the store compares (the schema's trimming and lower-casing of it
  is left out).
\<close>

datatype role = Admin | UserRole

record user =
  uid :: string
  email :: string
  password :: string
  name :: string
  role :: role
  isActive :: bool
  isVerified :: bool
  verifyToken :: "string option"
  verifyExpires :: "int option"
  lastVerificationSent :: "int option"
  lastLogin :: "int option"
  loginAttempts :: int
  lockUntil :: "int option"

text \<open>\<open>new User({name, email, password, role})\<close>: the schema defaults fill the rest.\<close>

definition new_User :: "string \<Rightarrow> string \<Rightarrow> string \<Rightarrow> string \<Rightarrow> role \<Rightarrow> user" where
  "new_User i n e p r =
     \<lparr>uid = i, email = e, password = p, name = n, role = r, isActive = True,
      isVerified = False, verifyToken = None, verifyExpires = None,
      lastVerificationSent = None, lastLogin = None, loginAttempts = 0, lockUntil = None\<rparr>"

text \<open>
  What the handlers call from bcryptjs, crypto, jsonwebtoken and Mongoose, and what they
  read from \<open>process.env\<close>. None of it is code of the repository, so it is a parameter
  of the model. A library call that throws returns \<open>None\<close>.
\<close>

datatype jwt_result = Decoded string | JsonWebTokenError | TokenExpiredError | OtherError

record lib =
  bcrypt_compare :: "string \<Rightarrow> string \<Rightarrow> bool option"
  bcrypt_hash :: "string \<Rightarrow> string"
  sha256_hex :: "string \<Rightarrow> string"
  jwt_sign :: "string \<Rightarrow> string \<Rightarrow> string \<Rightarrow> string \<Rightarrow> string option"
  jwt_verify :: "string \<Rightarrow> jwt_result"
  schema_valid :: "user \<Rightarrow> bool"
  JWT_EXPIRES_IN :: "string option"
  RESEND_COOLDOWN_SECONDS :: "int option"
  NODE_ENV :: "string option"
  ADMIN_EMAIL :: "string option"
  ADMIN_PASSWORD :: "string option"

type_synonym users = "user list"

definition findOne_email :: "users \<Rightarrow> string \<Rightarrow> user option" where
  "findOne_email store e = find (\<lambda>d. email d = e) store"

definition findOne_role :: "users \<Rightarrow> role \<Rightarrow> user option" where
  "findOne_role store r = find (\<lambda>d. role d = r) store"

definition findOne_email_role :: "users \<Rightarrow> string \<Rightarrow> role \<Rightarrow> user option" where
  "findOne_email_role store e r = find (\<lambda>d. email d = e \<and> role d = r) store"

definition findById :: "users \<Rightarrow> string \<Rightarrow> user option" where
  "findById store i = find (\<lambda>d. uid d = i) store"

text \<open>\<open>doc.updateOne(update)\<close>: the update is applied to the stored document of that id.\<close>

definition updateOne :: "users \<Rightarrow> string \<Rightarrow> (user \<Rightarrow> user) \<Rightarrow> users" where
  "updateOne store i f = map (\<lambda>d. if uid d = i then f d else d) store"

text \<open>\<open>doc.save()\<close> on a loaded document writes its fields back under its id.\<close>

definition save :: "users \<Rightarrow> user \<Rightarrow> users" where
  "save store u = updateOne store (uid u) (\<lambda>_. u)"

text \<open>
  \<open>doc.save()\<close> on a new document: validation and the unique indexes on \<open>_id\<close> and
  \<open>email\<close> can reject it (the call throws); the pre-save hook stores the hash of the
  password.
\<close>

definition save_new :: "lib \<Rightarrow> users \<Rightarrow> user \<Rightarrow> (user \<times> users) option" where
  "save_new l store u =
     (if \<not> schema_valid l u \<or> findById store (uid u) \<noteq> None
         \<or> findOne_email store (email u) \<noteq> None then None
      else (let u' = u\<lparr>password := bcrypt_hash l (password u)\<rparr> in Some (u', store @ [u'])))"

definition isLocked :: "user \<Rightarrow> int \<Rightarrow> bool" where
  "isLocked this now = (case lockUntil this of None \<Rightarrow> False | Some t \<Rightarrow> t > now)"

definition comparePassword :: "lib \<Rightarrow> user \<Rightarrow> string \<Rightarrow> bool option" where
  "comparePassword l this candidatePassword = bcrypt_compare l candidatePassword (password this)"

text \<open>
  \<open>$inc\<close> adds to the stored counter; \<open>$unset\<close> removes a field, which then reads as its
  schema default (\<open>lockUntil\<close> null, \<open>loginAttempts\<close> 0).
\<close>

definition incLoginAttempts :: "user \<Rightarrow> int \<Rightarrow> users \<Rightarrow> users" where
  "incLoginAttempts this now store =
     (if (case lockUntil this of None \<Rightarrow> False | Some t \<Rightarrow> t < now)
      then updateOne store (uid this) (\<lambda>d. d\<lparr>lockUntil := None, loginAttempts := 1\<rparr>)
      else if loginAttempts this + 1 \<ge> 5 \<and> \<not> isLocked this now
      then updateOne store (uid this)
             (\<lambda>d. d\<lparr>loginAttempts := loginAttempts d + 1,
                    lockUntil := Some (now + 2 * 60 * 60 * 1000)\<rparr>)
      else updateOne store (uid this) (\<lambda>d. d\<lparr>loginAttempts := loginAttempts d + 1\<rparr>))"

definition resetLoginAttempts :: "user \<Rightarrow> int \<Rightarrow> users \<Rightarrow> users" where
  "resetLoginAttempts this now store =
     updateOne store (uid this) (\<lambda>d. d\<lparr>loginAttempts := 0, lockUntil := None, lastLogin := Some now\<rparr>)"

text \<open>
  \<open>generateVerificationToken\<close>: \<open>rnd\<close> is the hex string of the 32 random bytes. The
  plain token is returned, its hash is stored.
\<close>

definition generateVerificationToken :: "lib \<Rightarrow> user \<Rightarrow> string \<Rightarrow> int \<Rightarrow> int \<Rightarrow> string \<times> user" where
  "generateVerificationToken l this rnd now expiresInMs =
     (rnd, this\<lparr>verifyToken := Some (sha256_hex l rnd),
                verifyExpires := Some (now + expiresInMs),
                lastVerificationSent := Some now\<rparr>)"

definition markVerified :: "user \<Rightarrow> users \<Rightarrow> user \<times> users" where
  "markVerified this store =
     (let this' = this\<lparr>isVerified := True, verifyToken := None, verifyExpires := None\<rparr>
      in (this', save store this'))"

text \<open>JavaScript's \<open>a || b\<close> on strings: the empty string is falsy.\<close>

definition or_else :: "string \<Rightarrow> string \<Rightarrow> string" where
  "or_else a b = (if a = [] then b else a)"

definition env_or :: "string option \<Rightarrow> string \<Rightarrow> string" where
  "env_or v b = (case v of None \<Rightarrow> b | Some a \<Rightarrow> or_else a b)"

text \<open>
  \<open>User.createAdmin\<close> (the static method): an admin already stored under that email is
  returned as it is.
\<close>

definition createAdmin :: "lib \<Rightarrow> users \<Rightarrow> string \<Rightarrow> string \<Rightarrow> string \<Rightarrow> string \<Rightarrow> (user \<times> users) option" where
  "createAdmin l store e p n new_id =
     (case findOne_email_role store e Admin of
        Some existingAdmin \<Rightarrow> Some (existingAdmin, store)
      | None \<Rightarrow> save_new l store (new_User new_id n e p Admin))"

section \<open>Token middleware (middleware/auth.js)\<close>

definition generateToken :: "lib \<Rightarrow> string \<Rightarrow> string option" where
  "generateToken l userId =
     jwt_sign l userId (env_or (JWT_EXPIRES_IN l) ''7d'') ''portfolio-api'' ''portfolio-client''"

section \<open>The authentication routes (routes/auth.js)\<close>

text \<open>
  A reply is the status and the \<open>error\<close> code of \<open>res.status(n).json(...)\<close>, with the
  extra field where the handler sends one, or a success body, or a redirect.
\<close>

datatype reply =
    Fail nat string
  | FailLockUntil nat string "int option"
  | FailRetryAfter nat string int
  | OkLogin string user
  | Created string user
  | OkResent int
  | Redirect string

definition login :: "lib \<Rightarrow> users \<Rightarrow> string \<Rightarrow> string \<Rightarrow> int \<Rightarrow> reply \<times> users" where
  "login l store e pw now =
     (case findOne_email store e of
        None \<Rightarrow> (Fail 401 ''INVALID_CREDENTIALS'', store)
      | Some u \<Rightarrow>
          if \<not> isVerified u then (Fail 403 ''EMAIL_NOT_VERIFIED'', store)
          else if isLocked u now then (FailLockUntil 423 ''ACCOUNT_LOCKED'' (lockUntil u), store)
          else if \<not> isActive u then (Fail 401 ''ACCOUNT_DEACTIVATED'', store)
          else (case comparePassword l u pw of
                  None \<Rightarrow> (Fail 500 ''LOGIN_ERROR'', store)
                | Some False \<Rightarrow> (Fail 401 ''INVALID_CREDENTIALS'', incLoginAttempts u now store)
                | Some True \<Rightarrow>
                    (let store' = resetLoginAttempts u now store in
                     case generateToken l (uid u) of
                       None \<Rightarrow> (Fail 500 ''LOGIN_ERROR'', store')
                     | Some token \<Rightarrow> (OkLogin token u, store'))))"

text \<open>
  \<open>POST /register\<close>, the handler after the validation middleware. \<open>new_id\<close> is the
  fresh \<open>_id\<close> of the document and \<open>rnd\<close> the random token. Sending the mail is
  best effort: its failure is caught and changes neither the reply nor the store.
\<close>

definition register :: "lib \<Rightarrow> users \<Rightarrow> string \<Rightarrow> string \<Rightarrow> string \<Rightarrow> string \<Rightarrow> string \<Rightarrow> int \<Rightarrow> reply \<times> users" where
  "register l store n e pw new_id rnd now =
     (case findOne_email store e of
        Some existingUser \<Rightarrow> (Fail 400 ''USER_EXISTS'', store)
      | None \<Rightarrow>
          (let user0 = (new_User new_id n e pw UserRole)\<lparr>isVerified := False\<rparr>;
               (plainToken, user1) = generateVerificationToken l user0 rnd now (24 * 60 * 60 * 1000)
           in case save_new l store user1 of
                None \<Rightarrow> (Fail 500 ''REGISTRATION_ERROR'', store)
              | Some (user2, store') \<Rightarrow>
                  (case generateToken l (uid user2) of
                     None \<Rightarrow> (Fail 500 ''REGISTRATION_ERROR'', store')
                   | Some token \<Rightarrow> (Created token user2, store'))))"

text \<open>\<open>POST /create-admin\<close>. An absent body field is the empty string (both are falsy).\<close>

definition create_admin :: "lib \<Rightarrow> users \<Rightarrow> string \<Rightarrow> string \<Rightarrow> string \<Rightarrow> string \<Rightarrow> reply \<times> users" where
  "create_admin l store n e pw new_id =
     (if NODE_ENV l = Some ''production'' then (Fail 403 ''PRODUCTION_RESTRICTION'', store)
      else case findOne_role store Admin of
        Some existingAdmin \<Rightarrow> (Fail 400 ''ADMIN_EXISTS'', store)
      | None \<Rightarrow>
          (case createAdmin l store
                  (or_else e (env_or (ADMIN_EMAIL l) ''jadejakrushnrajsinh99@gmail.com''))
                  (or_else pw (env_or (ADMIN_PASSWORD l) ''jadeja.kirtiba.12''))
                  (or_else n ''Portfolio Admin'') new_id of
             None \<Rightarrow> (Fail 500 ''ADMIN_CREATION_ERROR'', store)
           | Some (admin0, store1) \<Rightarrow>
               (let admin = admin0\<lparr>isVerified := True\<rparr>;
                    store2 = save store1 admin
                in case generateToken l (uid admin) of
                     None \<Rightarrow> (Fail 500 ''ADMIN_CREATION_ERROR'', store2)
                   | Some token \<Rightarrow> (Created token admin, store2))))"

text \<open>
  \<open>GET /verify-email\<close>. An absent query parameter is the empty string; a stored token
  is falsy when it is null or empty.
\<close>

definition verify_email :: "lib \<Rightarrow> users \<Rightarrow> string \<Rightarrow> string \<Rightarrow> int \<Rightarrow> reply \<times> users" where
  "verify_email l store token e now =
     (if token = [] \<or> e = [] then (Fail 400 ''MISSING_PARAMS'', store)
      else case findOne_email store e of
        None \<Rightarrow> (Fail 404 ''USER_NOT_FOUND'', store)
      | Some u \<Rightarrow>
          if isVerified u then (Redirect ''/verify-success.html'', store)
          else (case (verifyToken u, verifyExpires u) of
                  (Some stored, Some expires) \<Rightarrow>
                    if stored = [] then (Fail 400 ''NO_TOKEN'', store)
                    else (let hash = sha256_hex l token in
                          if hash \<noteq> stored \<or> expires < now
                          then (Redirect ''/verify-failed.html'', store)
                          else (Redirect ''/verify-success.html'',
                                save store (u\<lparr>isVerified := True, verifyToken := None,
                                               verifyExpires := None\<rparr>)))
                | _ \<Rightarrow> (Fail 400 ''NO_TOKEN'', store)))"

text \<open>
  \<open>POST /resend-verification\<close>. \<open>Math.floor\<close> of the quotient of two integers is
  \<open>div\<close>. The cooldown is read from the environment as an integer, 60 when unset.
\<close>

definition COOLDOWN_SECONDS :: "lib \<Rightarrow> int" where
  "COOLDOWN_SECONDS l = (case RESEND_COOLDOWN_SECONDS l of None \<Rightarrow> 60 | Some c \<Rightarrow> c)"

definition resend_verification :: "lib \<Rightarrow> users \<Rightarrow> string \<Rightarrow> string \<Rightarrow> int \<Rightarrow> reply \<times> users" where
  "resend_verification l store e rnd now =
     (if e = [] then (Fail 400 ''MISSING_EMAIL'', store)
      else case findOne_email store e of
        None \<Rightarrow> (Fail 404 ''USER_NOT_FOUND'', store)
      | Some u \<Rightarrow>
          if isVerified u then (Fail 400 ''ALREADY_VERIFIED'', store)
          else (let send = (let (plainToken, u') =
                                  generateVerificationToken l u rnd now (24 * 60 * 60 * 1000)
                            in (OkResent (COOLDOWN_SECONDS l), save store u'))
                in case lastVerificationSent u of
                     None \<Rightarrow> send
                   | Some sent \<Rightarrow>
                       (let elapsed = (now - sent) div 1000 in
                        if elapsed < COOLDOWN_SECONDS l
                        then (FailRetryAfter 429 ''TOO_MANY_REQUESTS'' (COOLDOWN_SECONDS l - elapsed),
                              store)
                        else send)))"

section \<open>Request middleware (middleware/auth.js)\<close>

datatype 'a mw = Next 'a | Reject reply

text \<open>\<open>s.split(" ")\<close>, and \<open>authHeader && authHeader.split(" ")[1]\<close> with a missing
  header, a missing second piece and the empty string all read as the empty string.\<close>

fun split_on :: "char \<Rightarrow> string \<Rightarrow> string list" where
  "split_on c [] = [[]]"
| "split_on c (x # xs) =
     (if x = c then [] # split_on c xs
      else (case split_on c xs of [] \<Rightarrow> [[x]] | w # ws \<Rightarrow> (x # w) # ws))"

definition header_token :: "string option \<Rightarrow> string" where
  "header_token authHeader =
     (case authHeader of
        None \<Rightarrow> []
      | Some h \<Rightarrow> (case split_on CHR '' '' h of _ # t # _ \<Rightarrow> t | _ \<Rightarrow> []))"

text \<open>\<open>req.user\<close> is the stored document without its password.\<close>

definition authenticateToken :: "lib \<Rightarrow> users \<Rightarrow> string option \<Rightarrow> int \<Rightarrow> user mw" where
  "authenticateToken l store authHeader now =
     (let token = header_token authHeader in
      if token = [] then Reject (Fail 401 ''MISSING_TOKEN'')
      else case jwt_verify l token of
        JsonWebTokenError \<Rightarrow> Reject (Fail 401 ''INVALID_TOKEN'')
      | TokenExpiredError \<Rightarrow> Reject (Fail 401 ''TOKEN_EXPIRED'')
      | OtherError \<Rightarrow> Reject (Fail 500 ''AUTH_ERROR'')
      | Decoded userId \<Rightarrow>
          (case findById store userId of
             None \<Rightarrow> Reject (Fail 401 ''INVALID_TOKEN'')
           | Some u \<Rightarrow>
               if \<not> isActive u then Reject (Fail 401 ''ACCOUNT_DEACTIVATED'')
               else if isLocked u now then Reject (Fail 423 ''ACCOUNT_LOCKED'')
               else Next (u\<lparr>password := []\<rparr>)))"

text \<open>\<open>validateSession\<close>: the first truthy of header, body field and query parameter.\<close>

definition validateSession :: "string \<Rightarrow> string \<Rightarrow> string \<Rightarrow> user option \<Rightarrow> string mw" where
  "validateSession hdr body query req_user =
     (let sessionId = or_else (or_else hdr body) query in
      if sessionId = [] \<and> req_user = None then Reject (Fail 400 ''MISSING_SESSION'')
      else Next sessionId)"

text \<open>
  An owned resource (a task, a project): the fields \<open>checkOwnership\<close> reads.
  \<open>Model.findById\<close> is a parameter: it throws, finds nothing, or finds a resource.
\<close>

record resource =
  rid :: string
  userId :: "string option"
  createdBy :: "string option"
  sessionId :: "string option"

datatype 'a query = QueryError | QueryResult "'a option"



section \<open>The properties, in the words of the specification\<close>


text \<open>A verified identity holds no verification token and no expiry.\<close>

definition verified_inv :: "user \<Rightarrow> bool" where
  "verified_inv u \<longleftrightarrow> (isVerified u \<longrightarrow> verifyToken u = None \<and> verifyExpires u = None)"

definition store_inv :: "users \<Rightarrow> bool" where
  "store_inv store \<longleftrightarrow> (\<forall>u\<in>set store. verified_inv u)"

text \<open>
  The stores the program can hold: the empty collection, and what registration, the
  admin bootstrap, the verification request, the resend request, \<open>markVerified\<close> on a
  stored document and a login make of such a store.
\<close>

inductive reachable :: "lib \<Rightarrow> users \<Rightarrow> bool" for l :: lib where
  r_empty: "reachable l []"
| r_register: "reachable l s \<Longrightarrow> reachable l (snd (register l s n e pw new_id rnd now))"
| r_create_admin: "reachable l s \<Longrightarrow> reachable l (snd (create_admin l s n e pw new_id))"
| r_verify: "reachable l s \<Longrightarrow> reachable l (snd (verify_email l s token e now))"
| r_resend: "reachable l s \<Longrightarrow> reachable l (snd (resend_verification l s e rnd now))"
| r_mark: "reachable l s \<Longrightarrow> u \<in> set s \<Longrightarrow> reachable l (snd (markVerified u s))"
| r_login: "reachable l s \<Longrightarrow> reachable l (snd (login l s e pw now))"

text \<open>Ids are unique, and an identity that is not verified has never been locked.\<close>

definition lock_inv :: "users \<Rightarrow> bool" where
  "lock_inv store \<longleftrightarrow>
     distinct (map uid store) \<and> (\<forall>u\<in>set store. \<not> isVerified u \<longrightarrow> lockUntil u = None)"


section \<open>Sample data\<close>

definition sample_lib :: lib where
  "sample_lib =
     \<lparr>bcrypt_compare = (\<lambda>p h. Some (h = CHR ''#'' # p)),
      bcrypt_hash = (\<lambda>p. CHR ''#'' # p),
      sha256_hex = (\<lambda>t. CHR ''h'' # t),
      jwt_sign = (\<lambda>i x iss aud. Some (CHR ''j'' # i)),
      jwt_verify = (\<lambda>t. case t of [] \<Rightarrow> JsonWebTokenError
                         | c # i \<Rightarrow> if c = CHR ''j'' then Decoded i else JsonWebTokenError),
      schema_valid = (\<lambda>u. True),
      JWT_EXPIRES_IN = None, RESEND_COOLDOWN_SECONDS = None, NODE_ENV = None,
      ADMIN_EMAIL = None, ADMIN_PASSWORD = None\<rparr>"



definition alice :: user where
  "alice = (new_User ''u1'' ''Alice'' ''alice@example.com'' ''#secret'' UserRole)
             \<lparr>verifyToken := Some ''habc'', verifyExpires := Some 90000000,
              lastVerificationSent := Some 3600000\<rparr>"

definition bob :: user where
  "bob = (new_User ''u2'' ''Bob'' ''bob@example.com'' ''#hunter2'' UserRole)
           \<lparr>isVerified := True, loginAttempts := 4\<rparr>"

definition dave :: user where
  "dave = (new_User ''u4'' ''Dave'' ''dave@example.com'' ''#letmein'' UserRole)
            \<lparr>isVerified := True, loginAttempts := 5, lockUntil := Some 4000\<rparr>"

definition root_user :: user where
  "root_user = (new_User ''u0'' ''Portfolio Admin'' ''admin@example.com'' ''#root'' Admin)
                 \<lparr>isVerified := True\<rparr>"

definition eve :: user where
  "eve = (new_User ''u9'' ''Eve'' ''eve@example.com'' ''#opensesame'' UserRole)
           \<lparr>verifyToken := Some ''h5f2c'', verifyExpires := Some 86405000,
            lastVerificationSent := Some 5000\<rparr>"

text \<open>Frank as registration at time 0 and verification leave him.\<close>

definition frank :: user where
  "frank = (new_User ''u6'' ''Frank'' ''frank@example.com'' ''#tiger'' UserRole)
             \<lparr>isVerified := True, lastVerificationSent := Some 0\<rparr>"





section \<open>Lookup after a write\<close>

lemma find_updateOne:
  assumes "find (\<lambda>d. email d = e) store = Some u" and "\<And>d. email (f d) = email d"
  shows "find (\<lambda>d. email d = e) (updateOne store (uid u) f) = Some (f u)"
  using assms by (induction store) (auto simp: updateOne_def)

lemma updateOne_email_find:
  assumes "findOne_email store e = Some u" and "\<And>d. email (f d) = email d"
  shows "findOne_email (updateOne store (uid u) f) e = Some (f u)"
  using assms unfolding findOne_email_def by (rule find_updateOne)

lemma save_email_find:
  assumes "findOne_email store e = Some u" and "uid u' = uid u" and "email u' = email u"
  shows "findOne_email (save store u') e = Some u'"
proof -
  have "email u = e" using assms(1) by (auto simp: findOne_email_def find_Some_iff)
  then show ?thesis
    using assms unfolding findOne_email_def save_def
    by (induction store) (auto simp: updateOne_def)
qed

lemma find_append_new: "find P xs = None \<Longrightarrow> P x \<Longrightarrow> find P (xs @ [x]) = Some x"
  by (induction xs) (auto split: if_splits)

text \<open>The route asks for any admin first, so the static method never finds one.\<close>

lemma no_admin_no_email_admin:
  "findOne_role store Admin = None \<Longrightarrow> findOne_email_role store e Admin = None"
  by (auto simp: findOne_role_def findOne_email_role_def find_None_iff)

section \<open>Lockout\<close>

lemma same_uid_same_doc:
  assumes "distinct (map uid store)" and "d \<in> set store" and "u \<in> set store" and "uid d = uid u"
  shows "d = u"
  using assms by (meson distinct_map inj_onD)

lemma updateOne_lock_inv:
  assumes "lock_inv store"
    and "\<And>d. d \<in> set store \<Longrightarrow> uid d = i \<Longrightarrow>
           uid (f d) = i \<and> (\<not> isVerified (f d) \<longrightarrow> lockUntil (f d) = None)"
  shows "lock_inv (updateOne store i f)"
proof -
  have "map uid (updateOne store i f) = map uid store"
    using assms(2) by (induction store) (auto simp: updateOne_def)
  moreover have "\<forall>u\<in>set (updateOne store i f). \<not> isVerified u \<longrightarrow> lockUntil u = None"
    using assms by (auto simp: updateOne_def lock_inv_def)
  ultimately show ?thesis using assms(1) by (simp add: lock_inv_def)
qed

lemma save_lock_inv:
  assumes "lock_inv store" and "\<not> isVerified u \<longrightarrow> lockUntil u = None"
  shows "lock_inv (save store u)"
  unfolding save_def using assms by (intro updateOne_lock_inv) simp_all

lemma save_new_lock_inv:
  assumes "lock_inv store" and "lockUntil u = None" and "save_new l store u = Some (u', store')"
  shows "lock_inv store' \<and> lockUntil u' = None \<and> u' \<in> set store'"
proof -
  from assms(3) have fresh: "findById store (uid u) = None"
    and u': "u' = u\<lparr>password := bcrypt_hash l (password u)\<rparr>" and s': "store' = store @ [u']"
    by (auto simp: save_new_def Let_def split: if_splits)
  have "uid u \<notin> uid ` set store"
    using fresh by (auto simp: findById_def find_None_iff)
  then show ?thesis
    using assms(1,2) u' s' by (auto simp: lock_inv_def)
qed

lemma findOne_email_mem: "findOne_email store e = Some u \<Longrightarrow> u \<in> set store"
  by (auto simp: findOne_email_def find_Some_iff)

lemma incLoginAttempts_lock_inv:
  assumes "lock_inv store" and "u \<in> set store" and "isVerified u"
  shows "lock_inv (incLoginAttempts u now store)"
proof -
  have same: "d = u" if "d \<in> set store" "uid d = uid u" for d
    using same_uid_same_doc [OF _ that(1) assms(2) that(2)] assms(1) by (simp add: lock_inv_def)
  have ver: "isVerified d" if "d \<in> set store" "uid d = uid u" for d
    using same [OF that] assms(3) by simp
  show ?thesis
    unfolding incLoginAttempts_def
    using assms(1) ver by (auto intro!: updateOne_lock_inv)
qed

lemma resetLoginAttempts_lock_inv:
  assumes "lock_inv store"
  shows "lock_inv (resetLoginAttempts u now store)"
  unfolding resetLoginAttempts_def using assms by (intro updateOne_lock_inv) simp_all

lemma login_lock_inv:
  assumes "lock_inv store"
  shows "lock_inv (snd (login l store e pw now))"
proof (cases "findOne_email store e")
  case None
  then show ?thesis using assms by (simp add: login_def)
next
  case (Some u)
  then have "u \<in> set store" by (rule findOne_email_mem)
  then have "isVerified u \<Longrightarrow> lock_inv (incLoginAttempts u now store)"
    using assms by (simp add: incLoginAttempts_lock_inv)
  then show ?thesis
    using assms Some resetLoginAttempts_lock_inv [OF assms, of u now]
    by (auto simp: login_def Let_def split: option.splits bool.splits)
qed

lemma register_lock_inv:
  assumes "lock_inv store"
  shows "lock_inv (snd (register l store n e pw new_id rnd now))"
proof (cases "findOne_email store e")
  case (Some existing)
  then show ?thesis using assms by (simp add: register_def)
next
  case None
  let ?u = "snd (generateVerificationToken l
                   ((new_User new_id n e pw UserRole)\<lparr>isVerified := False\<rparr>)
                   rnd now (24 * 60 * 60 * 1000))"
  have u: "lockUntil ?u = None"
    by (simp add: generateVerificationToken_def new_User_def)
  show ?thesis
  proof (cases "save_new l store ?u")
    case rejected: None
    then show ?thesis
      using assms None by (simp add: register_def generateVerificationToken_def)
  next
    case (Some p)
    obtain u' store' where p: "p = (u', store')" by (cases p)
    have "lock_inv store'"
      using save_new_lock_inv [OF assms u] Some p by simp
    then show ?thesis
      using None Some p
      by (auto simp: register_def generateVerificationToken_def split: option.splits)
  qed
qed

lemma create_admin_lock_inv:
  assumes "lock_inv store"
  shows "lock_inv (snd (create_admin l store n e pw new_id))"
proof (cases "NODE_ENV l = Some ''production'' \<or> findOne_role store Admin \<noteq> None")
  case True
  then show ?thesis using assms by (auto simp: create_admin_def)
next
  case False
  then have na: "findOne_role store Admin = None"
    and np: "NODE_ENV l \<noteq> Some ''production''" by auto
  let ?e = "or_else e (env_or (ADMIN_EMAIL l) ''jadejakrushnrajsinh99@gmail.com'')"
  let ?p = "or_else pw (env_or (ADMIN_PASSWORD l) ''jadeja.kirtiba.12'')"
  let ?n = "or_else n ''Portfolio Admin''"
  have ca: "createAdmin l store ?e ?p ?n new_id
              = save_new l store (new_User new_id ?n ?e ?p Admin)"
    using no_admin_no_email_admin [OF na] by (simp add: createAdmin_def)
  show ?thesis
  proof (cases "save_new l store (new_User new_id ?n ?e ?p Admin)")
    case None
    then show ?thesis using assms na np ca by (simp add: create_admin_def)
  next
    case (Some p)
    obtain a store1 where p: "p = (a, store1)" by (cases p)
    have s1: "lock_inv store1"
      using save_new_lock_inv [OF assms _ Some [unfolded p]] by (simp add: new_User_def)
    have "lock_inv (save store1 (a\<lparr>isVerified := True\<rparr>))"
      using s1 by (intro save_lock_inv) simp_all
    then show ?thesis
      using na np ca Some p by (auto simp: create_admin_def Let_def split: option.splits)
  qed
qed

lemma verify_email_lock_inv:
  assumes "lock_inv store"
  shows "lock_inv (snd (verify_email l store token e now))"
proof -
  have "lock_inv (save store (u\<lparr>isVerified := True, verifyToken := None,
                                 verifyExpires := None\<rparr>))" for u
    using assms by (intro save_lock_inv) simp_all
  then show ?thesis
    using assms by (auto simp: verify_email_def Let_def split: option.splits)
qed

lemma resend_verification_lock_inv:
  assumes "lock_inv store"
  shows "lock_inv (snd (resend_verification l store e rnd now))"
proof (cases "findOne_email store e")
  case None
  then show ?thesis using assms by (simp add: resend_verification_def)
next
  case (Some u)
  then have "u \<in> set store" by (rule findOne_email_mem)
  then have "lock_inv (save store (snd (generateVerificationToken l u rnd now x)))"
    if "\<not> isVerified u" for x
    using assms that
    by (intro save_lock_inv) (auto simp: generateVerificationToken_def lock_inv_def)
  then show ?thesis
    using assms Some
    by (auto simp: resend_verification_def Let_def split_beta split: option.splits)
qed

lemma markVerified_lock_inv:
  assumes "lock_inv store"
  shows "lock_inv (snd (markVerified u store))"
  using assms by (simp add: markVerified_def Let_def save_lock_inv)

lemma reachable_lock_inv: "reachable l s \<Longrightarrow> lock_inv s"
proof (induction rule: reachable.induct)
  case r_empty
  then show ?case by (simp add: lock_inv_def)
next
  case (r_register s n e pw new_id rnd now)
  then show ?case by (simp add: register_lock_inv)
next
  case (r_create_admin s n e pw new_id)
  then show ?case by (simp add: create_admin_lock_inv)
next
  case (r_verify s token e now)
  then show ?case by (simp add: verify_email_lock_inv)
next
  case (r_resend s e rnd now)
  then show ?case by (simp add: resend_verification_lock_inv)
next
  case (r_mark s u)
  then show ?case by (simp add: markVerified_lock_inv)
next
  case (r_login s e pw now)
  then show ?case by (simp add: login_lock_inv)
qed

text \<open>
  C1. In every store the program can hold, for every identity: a login attempt that
  fails on the password (the reply is 401 \<open>INVALID_CREDENTIALS\<close> for an identity that
  exists) finds the identity unlocked; when it leaves the stored counter at 5 it also
  stores \<open>lockUntil = now + 2 hours\<close>, so the identity is locked from that moment, and
  when it leaves the counter below 5 the identity stays unlocked. While the identity
  is locked, a login attempt is answered with 423 \<open>ACCOUNT_LOCKED\<close> whatever the
  password, and the store (so the counter) is unchanged.
\<close>

theorem login_lockout:
  assumes "reachable l store" and "findOne_email store e = Some u"
  shows "(fst (login l store e pw now) = Fail 401 ''INVALID_CREDENTIALS''
          \<and> findOne_email (snd (login l store e pw now)) e = Some u'
          \<longrightarrow> \<not> isLocked u now
              \<and> (loginAttempts u' = 5 \<longrightarrow>
                   lockUntil u' = Some (now + 2 * 60 * 60 * 1000) \<and> isLocked u' now)
              \<and> (loginAttempts u' < 5 \<longrightarrow> \<not> isLocked u' now))
       \<and> (isLocked u now
          \<longrightarrow> login l store e pw now = (FailLockUntil 423 ''ACCOUNT_LOCKED'' (lockUntil u), store))"
    (is "(?failed \<longrightarrow> ?locks) \<and> (?locked \<longrightarrow> ?refused)")
proof -
  have refused: ?refused if locked: ?locked
  proof -
    have "u \<in> set store" using assms(2) by (rule findOne_email_mem)
    moreover have "lockUntil u \<noteq> None" using locked by (auto simp: isLocked_def split: option.splits)
    ultimately have "isVerified u"
      using reachable_lock_inv [OF assms(1)] by (auto simp: lock_inv_def)
    then show ?thesis using assms(2) locked by (simp add: login_def)
  qed
  have locks: ?locks if a: ?failed
  proof -
    have gate: "\<not> isLocked u now"
      and 1: "snd (login l store e pw now) = incLoginAttempts u now store"
      using a assms(2)
      by (auto simp: login_def Let_def split: if_splits option.splits bool.splits)
    have f: "findOne_email (incLoginAttempts u now store) e = Some u'" using a 1 by simp
    have "(loginAttempts u' = 5 \<longrightarrow>
             lockUntil u' = Some (now + 2 * 60 * 60 * 1000) \<and> isLocked u' now)
          \<and> (loginAttempts u' < 5 \<longrightarrow> \<not> isLocked u' now)"
    proof (cases "case lockUntil u of None \<Rightarrow> False | Some t \<Rightarrow> t < now")
      case True
      then have "incLoginAttempts u now store
                   = updateOne store (uid u) (\<lambda>d. d\<lparr>lockUntil := None, loginAttempts := 1\<rparr>)"
        by (simp add: incLoginAttempts_def)
      then have "u' = u\<lparr>lockUntil := None, loginAttempts := 1\<rparr>"
        using f updateOne_email_find
                  [OF assms(2), of "\<lambda>d. d\<lparr>lockUntil := None, loginAttempts := 1\<rparr>"]
        by simp
      then show ?thesis by (simp add: isLocked_def)
    next
      case False
      show ?thesis
      proof (cases "loginAttempts u + 1 \<ge> 5")
        case True
        then have "incLoginAttempts u now store
                     = updateOne store (uid u)
                         (\<lambda>d. d\<lparr>loginAttempts := loginAttempts d + 1,
                                lockUntil := Some (now + 2 * 60 * 60 * 1000)\<rparr>)"
          using False gate by (simp add: incLoginAttempts_def)
        then have "u' = u\<lparr>loginAttempts := loginAttempts u + 1,
                          lockUntil := Some (now + 2 * 60 * 60 * 1000)\<rparr>"
          using f updateOne_email_find
                    [OF assms(2), of "\<lambda>d. d\<lparr>loginAttempts := loginAttempts d + 1,
                                             lockUntil := Some (now + 2 * 60 * 60 * 1000)\<rparr>"]
          by simp
        then show ?thesis using True by (simp add: isLocked_def)
      next
        case few: False
        then have "incLoginAttempts u now store
                     = updateOne store (uid u) (\<lambda>d. d\<lparr>loginAttempts := loginAttempts d + 1\<rparr>)"
          using False by (simp add: incLoginAttempts_def)
        then have "u' = u\<lparr>loginAttempts := loginAttempts u + 1\<rparr>"
          using f updateOne_email_find
                    [OF assms(2), of "\<lambda>d. d\<lparr>loginAttempts := loginAttempts d + 1\<rparr>"]
          by simp
        then show ?thesis using few gate by (simp add: isLocked_def)
      qed
    qed
    then show ?thesis using gate by simp
  qed
  show ?thesis using refused locks by blast
qed

lemma reachable_frank: "reachable sample_lib [frank]"
proof -
  have "reachable sample_lib
          (snd (verify_email sample_lib
                  (snd (register sample_lib [] ''Frank'' ''frank@example.com'' ''tiger''
                          ''u6'' ''c0de'' 0))
                  ''c0de'' ''frank@example.com'' 500))"
    by (intro r_verify r_register r_empty)
  moreover have "snd (verify_email sample_lib
                  (snd (register sample_lib [] ''Frank'' ''frank@example.com'' ''tiger''
                          ''u6'' ''c0de'' 0))
                  ''c0de'' ''frank@example.com'' 500) = [frank]"
    by (simp add: register_def verify_email_def findOne_email_def findById_def save_new_def
          save_def updateOne_def generateVerificationToken_def generateToken_def env_or_def
          Let_def sample_lib_def frank_def new_User_def)
  ultimately show ?thesis by simp
qed

lemma reachable_failed_login:
  assumes "reachable sample_lib [frank\<lparr>loginAttempts := k\<rparr>]" and "k + 1 < 5"
  shows "reachable sample_lib [frank\<lparr>loginAttempts := k + 1\<rparr>]"
proof -
  have "reachable sample_lib
          (snd (login sample_lib [frank\<lparr>loginAttempts := k\<rparr>] ''frank@example.com'' ''guess'' now))"
    for now
    using assms(1) by (rule r_login)
  moreover have "snd (login sample_lib [frank\<lparr>loginAttempts := k\<rparr>] ''frank@example.com''
                        ''guess'' 1000) = [frank\<lparr>loginAttempts := k + 1\<rparr>]"
    using assms(2)
    by (simp add: login_def findOne_email_def isLocked_def comparePassword_def
          incLoginAttempts_def updateOne_def sample_lib_def frank_def new_User_def)
  ultimately show ?thesis by metis
qed

lemma reachable_frank_4: "reachable sample_lib [frank\<lparr>loginAttempts := 4\<rparr>]"
proof -
  have "frank\<lparr>loginAttempts := 0\<rparr> = frank" by (simp add: frank_def new_User_def)
  then have "reachable sample_lib [frank\<lparr>loginAttempts := 0\<rparr>]"
    using reachable_frank by simp
  from reachable_failed_login [OF this] have "reachable sample_lib [frank\<lparr>loginAttempts := 1\<rparr>]"
    by simp
  from reachable_failed_login [OF this] have "reachable sample_lib [frank\<lparr>loginAttempts := 2\<rparr>]"
    by simp
  from reachable_failed_login [OF this] have "reachable sample_lib [frank\<lparr>loginAttempts := 3\<rparr>]"
    by simp
  from reachable_failed_login [OF this] show ?thesis
    by simp
qed

lemma reachable_frank_locked:
  "reachable sample_lib [frank\<lparr>loginAttempts := 5, lockUntil := Some 7205000\<rparr>]"
proof -
  have "reachable sample_lib
          (snd (login sample_lib [frank\<lparr>loginAttempts := 4\<rparr>] ''frank@example.com'' ''guess'' 5000))"
    using reachable_frank_4 by (rule r_login)
  moreover have "snd (login sample_lib [frank\<lparr>loginAttempts := 4\<rparr>] ''frank@example.com''
                        ''guess'' 5000)
                   = [frank\<lparr>loginAttempts := 5, lockUntil := Some 7205000\<rparr>]"
    by (simp add: login_def findOne_email_def isLocked_def comparePassword_def
          incLoginAttempts_def updateOne_def sample_lib_def frank_def new_User_def)
  ultimately show ?thesis by simp
qed

theorem login_lockout_witness:
  "reachable sample_lib [frank\<lparr>loginAttempts := 4\<rparr>]
   \<and> findOne_email [frank\<lparr>loginAttempts := 4\<rparr>] ''frank@example.com''
       = Some (frank\<lparr>loginAttempts := 4\<rparr>)
   \<and> login sample_lib [frank\<lparr>loginAttempts := 4\<rparr>] ''frank@example.com'' ''guess'' 5000
       = (Fail 401 ''INVALID_CREDENTIALS'',
          [frank\<lparr>loginAttempts := 5, lockUntil := Some 7205000\<rparr>])
   \<and> \<not> isLocked (frank\<lparr>loginAttempts := 4\<rparr>) 5000
   \<and> isLocked (frank\<lparr>loginAttempts := 5, lockUntil := Some 7205000\<rparr>) 5000
   \<and> reachable sample_lib [frank]
   \<and> login sample_lib [frank] ''frank@example.com'' ''guess'' 1000
       = (Fail 401 ''INVALID_CREDENTIALS'', [frank\<lparr>loginAttempts := 1\<rparr>])
   \<and> \<not> isLocked (frank\<lparr>loginAttempts := 1\<rparr>) 1000
   \<and> reachable sample_lib [frank\<lparr>loginAttempts := 5, lockUntil := Some 7205000\<rparr>]
   \<and> isLocked (frank\<lparr>loginAttempts := 5, lockUntil := Some 7205000\<rparr>) 6000
   \<and> login sample_lib [frank\<lparr>loginAttempts := 5, lockUntil := Some 7205000\<rparr>]
         ''frank@example.com'' ''tiger'' 6000
       = (FailLockUntil 423 ''ACCOUNT_LOCKED'' (Some 7205000),
          [frank\<lparr>loginAttempts := 5, lockUntil := Some 7205000\<rparr>])"
  using reachable_frank reachable_frank_4 reachable_frank_locked
    login_lockout [of sample_lib "[frank\<lparr>loginAttempts := 4\<rparr>]" "''frank@example.com''"
                      "frank\<lparr>loginAttempts := 4\<rparr>" "''guess''" 5000
                      "frank\<lparr>loginAttempts := 5, lockUntil := Some 7205000\<rparr>"]
    login_lockout [of sample_lib "[frank]" "''frank@example.com''" frank "''guess''" 1000
                      "frank\<lparr>loginAttempts := 1\<rparr>"]
    login_lockout [of sample_lib "[frank\<lparr>loginAttempts := 5, lockUntil := Some 7205000\<rparr>]"
                      "''frank@example.com''"
                      "frank\<lparr>loginAttempts := 5, lockUntil := Some 7205000\<rparr>" "''tiger''" 6000]
  by (simp add: login_def findOne_email_def isLocked_def comparePassword_def
        incLoginAttempts_def updateOne_def sample_lib_def frank_def new_User_def)

text \<open>
  C8. When the lock of an identity has expired (\<open>lockUntil\<close> lies before \<open>now\<close>), a
  login attempt that fails on the password stores the counter 1, not the old counter
  plus one, and removes \<open>lockUntil\<close>.
\<close>

theorem login_after_expired_lock:
  assumes "findOne_email store e = Some u" and "isVerified u" and "isActive u"
    and "lockUntil u = Some t" and "t < now"
    and "bcrypt_compare l pw (password u) = Some False"
  shows "login l store e pw now = (Fail 401 ''INVALID_CREDENTIALS'', incLoginAttempts u now store)
       \<and> findOne_email (incLoginAttempts u now store) e
           = Some (u\<lparr>lockUntil := None, loginAttempts := 1\<rparr>)"
proof -
  have nl: "\<not> isLocked u now" using assms(4,5) by (simp add: isLocked_def)
  have 1: "login l store e pw now
             = (Fail 401 ''INVALID_CREDENTIALS'', incLoginAttempts u now store)"
    using assms nl by (simp add: login_def comparePassword_def)
  have 2: "incLoginAttempts u now store
             = updateOne store (uid u) (\<lambda>d. d\<lparr>lockUntil := None, loginAttempts := 1\<rparr>)"
    using assms(4,5) by (simp add: incLoginAttempts_def)
  have 3: "findOne_email (incLoginAttempts u now store) e
             = Some (u\<lparr>lockUntil := None, loginAttempts := 1\<rparr>)"
    unfolding 2 using assms(1) by (rule updateOne_email_find) simp
  show ?thesis using 1 3 by simp
qed

theorem login_after_expired_lock_witness:
  "findOne_email [dave] ''dave@example.com'' = Some dave \<and> isVerified dave \<and> isActive dave
   \<and> lockUntil dave = Some 4000 \<and> (4000::int) < 5000
   \<and> bcrypt_compare sample_lib ''guess'' (password dave) = Some False
   \<and> login sample_lib [dave] ''dave@example.com'' ''guess'' 5000
       = (Fail 401 ''INVALID_CREDENTIALS'', [dave\<lparr>lockUntil := None, loginAttempts := 1\<rparr>])"
  using login_after_expired_lock
          [of "[dave]" "''dave@example.com''" dave 4000 5000 sample_lib "''guess''"]
  by (simp add: findOne_email_def incLoginAttempts_def updateOne_def sample_lib_def
        dave_def new_User_def)

section \<open>Login is gated by verification\<close>

text \<open>
  C2. For an identity whose \<open>isVerified\<close> is false, a login attempt is answered with
  403 \<open>EMAIL_NOT_VERIFIED\<close>, whatever the password and whatever the lock state, and the
  store (so the counter of failed logins) is left as it was.
\<close>

theorem login_unverified:
  assumes "findOne_email store e = Some u" and "\<not> isVerified u"
  shows "login l store e pw now = (Fail 403 ''EMAIL_NOT_VERIFIED'', store)"
  using assms by (simp add: login_def)

theorem login_unverified_witness:
  "findOne_email [alice] ''alice@example.com'' = Some alice \<and> \<not> isVerified alice
   \<and> login sample_lib [alice] ''alice@example.com'' ''secret'' 5000
       = (Fail 403 ''EMAIL_NOT_VERIFIED'', [alice])"
  using login_unverified [of "[alice]" "''alice@example.com''" alice sample_lib "''secret''" 5000]
  by (simp add: findOne_email_def alice_def new_User_def)

section \<open>Ownership\<close>




section \<open>Email verification\<close>

text \<open>
  C5. The request carries a token and an email, the email is that of an unverified
  identity holding a stored hash and an expiry. Then the request is sent to
  \<open>/verify-failed.html\<close>, with the store unchanged, when the hash of the token differs
  from the stored hash or the expiry lies before \<open>now\<close>; in particular when the token
  was issued by \<open>generateVerificationToken\<close> with its 24 hours and \<open>now\<close> lies after
  issuance plus 24 hours, even for the right token. With the right token and the expiry
  not passed, the request is sent to \<open>/verify-success.html\<close> and the identity is stored
  verified, without token hash and expiry.
\<close>

theorem verify_email_consume:
  assumes "token \<noteq> []" and "e \<noteq> []"
    and "findOne_email store e = Some u" and "\<not> isVerified u"
    and "verifyToken u = Some stored" and "stored \<noteq> []" and "verifyExpires u = Some expires"
  shows "(sha256_hex l token \<noteq> stored \<or> expires < now \<longrightarrow>
            verify_email l store token e now = (Redirect ''/verify-failed.html'', store))
       \<and> (u = snd (generateVerificationToken l u0 token issued (24 * 60 * 60 * 1000))
           \<and> issued + 24 * 60 * 60 * 1000 < now \<longrightarrow>
            verify_email l store token e now = (Redirect ''/verify-failed.html'', store))
       \<and> (sha256_hex l token = stored \<and> \<not> expires < now \<longrightarrow>
            fst (verify_email l store token e now) = Redirect ''/verify-success.html''
            \<and> findOne_email (snd (verify_email l store token e now)) e
                = Some (u\<lparr>isVerified := True, verifyToken := None, verifyExpires := None\<rparr>))"
    (is "(?bad \<longrightarrow> ?failed) \<and> (?late \<longrightarrow> ?failed) \<and> (?good \<longrightarrow> ?consumed)")
proof -
  have failed: ?failed if ?bad
    using assms that by (auto simp: verify_email_def Let_def)
  have late: ?failed if a: ?late
  proof -
    have "expires = issued + 24 * 60 * 60 * 1000"
      using a assms(7) by (simp add: generateVerificationToken_def)
    then have "expires < now" using a by simp
    then show ?thesis using failed by simp
  qed
  have consumed: ?consumed if a: ?good
  proof -
    let ?v = "u\<lparr>isVerified := True, verifyToken := None, verifyExpires := None\<rparr>"
    have 1: "verify_email l store token e now
               = (Redirect ''/verify-success.html'', save store ?v)"
      using assms a by (simp add: verify_email_def Let_def)
    have "findOne_email (save store ?v) e = Some ?v"
      using assms(3) by (rule save_email_find) simp_all
    then show ?thesis using 1 by simp
  qed
  show ?thesis using failed late consumed by blast
qed

theorem verify_email_consume_witness:
  "''abc'' \<noteq> [] \<and> ''alice@example.com'' \<noteq> []
   \<and> findOne_email [alice] ''alice@example.com'' = Some alice \<and> \<not> isVerified alice
   \<and> verifyToken alice = Some ''habc'' \<and> verifyExpires alice = Some 90000000
   \<and> sha256_hex sample_lib ''abd'' \<noteq> ''habc''
   \<and> verify_email sample_lib [alice] ''abd'' ''alice@example.com'' 5000000
       = (Redirect ''/verify-failed.html'', [alice])
   \<and> alice = snd (generateVerificationToken sample_lib
                    (new_User ''u1'' ''Alice'' ''alice@example.com'' ''#secret'' UserRole)
                    ''abc'' 3600000 (24 * 60 * 60 * 1000))
   \<and> (3600000::int) + 24 * 60 * 60 * 1000 < 90000001
   \<and> verify_email sample_lib [alice] ''abc'' ''alice@example.com'' 90000001
       = (Redirect ''/verify-failed.html'', [alice])
   \<and> sha256_hex sample_lib ''abc'' = ''habc'' \<and> \<not> (90000000::int) < 90000000
   \<and> verify_email sample_lib [alice] ''abc'' ''alice@example.com'' 90000000
       = (Redirect ''/verify-success.html'',
          [alice\<lparr>isVerified := True, verifyToken := None, verifyExpires := None\<rparr>])"
  using verify_email_consume
          [of "''abd''" "''alice@example.com''" "[alice]" alice "''habc''" 90000000
              sample_lib 5000000]
        verify_email_consume
          [of "''abc''" "''alice@example.com''" "[alice]" alice "''habc''" 90000000
              sample_lib 90000001
              "new_User ''u1'' ''Alice'' ''alice@example.com'' ''#secret'' UserRole" 3600000]
        verify_email_consume
          [of "''abc''" "''alice@example.com''" "[alice]" alice "''habc''" 90000000
              sample_lib 90000000]
  by (simp add: verify_email_def findOne_email_def save_def updateOne_def
        generateVerificationToken_def sample_lib_def alice_def new_User_def)

text \<open>
  C6. For a request that carries a token and an email: when the identity is already
  verified, any token is sent to \<open>/verify-success.html\<close> and the store is unchanged
  (no stored token is needed or consumed). So with the right token, a first call
  verifies the identity and a second call, at any later time, succeeds again and leaves
  the store as the first call left it.
\<close>

theorem verify_email_idempotent:
  assumes "token \<noteq> []" and "e \<noteq> []" and "findOne_email store e = Some u"
  shows "(isVerified u \<longrightarrow>
            verify_email l store token e now = (Redirect ''/verify-success.html'', store))
       \<and> (\<not> isVerified u \<and> verifyToken u = Some (sha256_hex l token)
           \<and> sha256_hex l token \<noteq> [] \<and> verifyExpires u = Some expires \<and> now \<le> expires \<longrightarrow>
            fst (verify_email l store token e now) = Redirect ''/verify-success.html''
            \<and> verify_email l (snd (verify_email l store token e now)) token e later
                = (Redirect ''/verify-success.html'', snd (verify_email l store token e now)))"
    (is "(?verified \<longrightarrow> ?same) \<and> (?pending \<longrightarrow> ?twice)")
proof -
  have same: ?same if ?verified
    using assms that by (simp add: verify_email_def)
  have twice: ?twice if a: ?pending
  proof -
    let ?v = "u\<lparr>isVerified := True, verifyToken := None, verifyExpires := None\<rparr>"
    have 1: "verify_email l store token e now
               = (Redirect ''/verify-success.html'', save store ?v)"
      using assms a by (simp add: verify_email_def Let_def)
    have 2: "findOne_email (save store ?v) e = Some ?v"
      using assms(3) by (rule save_email_find) simp_all
    have "verify_email l (save store ?v) token e later
            = (Redirect ''/verify-success.html'', save store ?v)"
      using assms(1,2) 2 by (simp add: verify_email_def)
    then show ?thesis using 1 by simp
  qed
  show ?thesis using same twice by blast
qed

theorem verify_email_idempotent_witness:
  "''anything'' \<noteq> [] \<and> ''bob@example.com'' \<noteq> []
   \<and> findOne_email [bob] ''bob@example.com'' = Some bob \<and> isVerified bob
   \<and> verify_email sample_lib [bob] ''anything'' ''bob@example.com'' 5000
       = (Redirect ''/verify-success.html'', [bob])
   \<and> findOne_email [alice] ''alice@example.com'' = Some alice \<and> \<not> isVerified alice
   \<and> verifyToken alice = Some (sha256_hex sample_lib ''abc'')
   \<and> verifyExpires alice = Some 90000000 \<and> (5000::int) \<le> 90000000
   \<and> verify_email sample_lib [alice] ''abc'' ''alice@example.com'' 5000
       = (Redirect ''/verify-success.html'',
          [alice\<lparr>isVerified := True, verifyToken := None, verifyExpires := None\<rparr>])
   \<and> verify_email sample_lib
        [alice\<lparr>isVerified := True, verifyToken := None, verifyExpires := None\<rparr>]
        ''abc'' ''alice@example.com'' 99000000
       = (Redirect ''/verify-success.html'',
          [alice\<lparr>isVerified := True, verifyToken := None, verifyExpires := None\<rparr>])"
  using verify_email_idempotent
          [of "''anything''" "''bob@example.com''" "[bob]" bob sample_lib 5000]
        verify_email_idempotent
          [of "''abc''" "''alice@example.com''" "[alice]" alice sample_lib 5000 90000000 99000000]
  by (simp add: verify_email_def findOne_email_def save_def updateOne_def
        sample_lib_def alice_def bob_def new_User_def)

text \<open>
  C7. For a request that carries an email: an email that no identity has is answered
  with 404 \<open>USER_NOT_FOUND\<close>, a verified identity with 400 \<open>ALREADY_VERIFIED\<close>; for an
  unverified identity whose last verification mail was sent at or before \<open>now\<close> and
  less than the cooldown before it, the answer is 429 \<open>TOO_MANY_REQUESTS\<close> with
  \<open>retryAfter\<close> the cooldown minus the whole seconds elapsed, which is at most the
  cooldown, so at most 60 when the cooldown is not configured. The store is unchanged
  in all three cases.
\<close>

theorem resend_verification_refusals:
  assumes "e \<noteq> []"
  shows "(findOne_email store e = None \<longrightarrow>
            resend_verification l store e rnd now = (Fail 404 ''USER_NOT_FOUND'', store))
       \<and> (findOne_email store e = Some u \<and> isVerified u \<longrightarrow>
            resend_verification l store e rnd now = (Fail 400 ''ALREADY_VERIFIED'', store))
       \<and> (findOne_email store e = Some u \<and> \<not> isVerified u
           \<and> lastVerificationSent u = Some sent \<and> sent \<le> now
           \<and> now - sent < COOLDOWN_SECONDS l * 1000 \<longrightarrow>
            resend_verification l store e rnd now
              = (FailRetryAfter 429 ''TOO_MANY_REQUESTS''
                   (COOLDOWN_SECONDS l - (now - sent) div 1000), store)
            \<and> COOLDOWN_SECONDS l - (now - sent) div 1000 \<le> COOLDOWN_SECONDS l
            \<and> (RESEND_COOLDOWN_SECONDS l = None \<longrightarrow>
                 COOLDOWN_SECONDS l - (now - sent) div 1000 \<le> 60))"
    (is "?absent \<and> ?verified \<and> (?recent \<longrightarrow> ?limited)")
proof -
  have absent: ?absent
    using assms by (simp add: resend_verification_def)
  have verified: ?verified
    using assms by (simp add: resend_verification_def)
  have limited: ?limited if a: ?recent
  proof -
    let ?elapsed = "(now - sent) div 1000"
    have lt: "?elapsed < COOLDOWN_SECONDS l" using a by linarith
    have ge: "0 \<le> ?elapsed" using a by (simp add: pos_imp_zdiv_nonneg_iff)
    have 1: "resend_verification l store e rnd now
               = (FailRetryAfter 429 ''TOO_MANY_REQUESTS'' (COOLDOWN_SECONDS l - ?elapsed), store)"
      using assms a lt by (simp add: resend_verification_def Let_def)
    have 2: "COOLDOWN_SECONDS l - ?elapsed \<le> COOLDOWN_SECONDS l" using ge by simp
    have 3: "RESEND_COOLDOWN_SECONDS l = None \<longrightarrow> COOLDOWN_SECONDS l - ?elapsed \<le> 60"
      using ge by (simp add: COOLDOWN_SECONDS_def)
    show ?thesis using 1 2 3 by simp
  qed
  show ?thesis using absent verified limited by blast
qed

theorem resend_verification_refusals_witness:
  "''nobody@example.com'' \<noteq> []
   \<and> findOne_email [alice, bob] ''nobody@example.com'' = None
   \<and> resend_verification sample_lib [alice, bob] ''nobody@example.com'' ''r'' 3610000
       = (Fail 404 ''USER_NOT_FOUND'', [alice, bob])
   \<and> findOne_email [alice, bob] ''bob@example.com'' = Some bob \<and> isVerified bob
   \<and> resend_verification sample_lib [alice, bob] ''bob@example.com'' ''r'' 3610000
       = (Fail 400 ''ALREADY_VERIFIED'', [alice, bob])
   \<and> findOne_email [alice, bob] ''alice@example.com'' = Some alice \<and> \<not> isVerified alice
   \<and> lastVerificationSent alice = Some 3600000 \<and> (3600000::int) \<le> 3610000
   \<and> (3610000::int) - 3600000 < COOLDOWN_SECONDS sample_lib * 1000
   \<and> RESEND_COOLDOWN_SECONDS sample_lib = None
   \<and> resend_verification sample_lib [alice, bob] ''alice@example.com'' ''r'' 3610000
       = (FailRetryAfter 429 ''TOO_MANY_REQUESTS'' 50, [alice, bob])"
  using resend_verification_refusals
          [of "''nobody@example.com''" "[alice, bob]" sample_lib "''r''" 3610000]
        resend_verification_refusals
          [of "''bob@example.com''" "[alice, bob]" sample_lib "''r''" 3610000 bob]
        resend_verification_refusals
          [of "''alice@example.com''" "[alice, bob]" sample_lib "''r''" 3610000 alice 3600000]
  by (simp add: resend_verification_def findOne_email_def COOLDOWN_SECONDS_def
        sample_lib_def alice_def bob_def new_User_def)

section \<open>The verification invariant\<close>

lemma updateOne_keeps:
  assumes "store_inv store"
    and "\<And>d. isVerified (f d) = isVerified d"
    and "\<And>d. verifyToken (f d) = verifyToken d"
    and "\<And>d. verifyExpires (f d) = verifyExpires d"
  shows "store_inv (updateOne store i f)"
  using assms by (auto simp: updateOne_def store_inv_def verified_inv_def)

lemma save_inv:
  assumes "store_inv store" and "verified_inv u"
  shows "store_inv (save store u)"
  using assms by (auto simp: save_def updateOne_def store_inv_def)

lemma save_new_inv:
  assumes "store_inv store" and "verified_inv u" and "save_new l store u = Some (u', store')"
  shows "store_inv store'"
  using assms
  by (auto simp: save_new_def Let_def verified_inv_def store_inv_def split: if_splits)

lemma register_inv:
  assumes "store_inv store"
  shows "store_inv (snd (register l store n e pw new_id rnd now))"
proof (cases "findOne_email store e")
  case (Some existing)
  then show ?thesis using assms by (simp add: register_def)
next
  case None
  let ?u = "snd (generateVerificationToken l
                   ((new_User new_id n e pw UserRole)\<lparr>isVerified := False\<rparr>)
                   rnd now (24 * 60 * 60 * 1000))"
  have u: "verified_inv ?u"
    by (simp add: verified_inv_def generateVerificationToken_def)
  show ?thesis
  proof (cases "save_new l store ?u")
    case rejected: None
    then show ?thesis
      using assms None by (simp add: register_def generateVerificationToken_def)
  next
    case (Some p)
    obtain u' store' where p: "p = (u', store')" by (cases p)
    have "store_inv store'"
      using save_new_inv [OF assms u] Some p by simp
    then show ?thesis
      using None Some p
      by (auto simp: register_def generateVerificationToken_def split: option.splits)
  qed
qed

lemma create_admin_inv:
  assumes "store_inv store"
  shows "store_inv (snd (create_admin l store n e pw new_id))"
proof (cases "NODE_ENV l = Some ''production'' \<or> findOne_role store Admin \<noteq> None")
  case True
  then show ?thesis using assms by (auto simp: create_admin_def)
next
  case False
  then have na: "findOne_role store Admin = None"
    and np: "NODE_ENV l \<noteq> Some ''production''" by auto
  let ?e = "or_else e (env_or (ADMIN_EMAIL l) ''jadejakrushnrajsinh99@gmail.com'')"
  let ?p = "or_else pw (env_or (ADMIN_PASSWORD l) ''jadeja.kirtiba.12'')"
  let ?n = "or_else n ''Portfolio Admin''"
  have ca: "createAdmin l store ?e ?p ?n new_id
              = save_new l store (new_User new_id ?n ?e ?p Admin)"
    using no_admin_no_email_admin [OF na] by (simp add: createAdmin_def)
  show ?thesis
  proof (cases "save_new l store (new_User new_id ?n ?e ?p Admin)")
    case None
    then show ?thesis using assms na np ca by (simp add: create_admin_def)
  next
    case (Some p)
    obtain a store1 where p: "p = (a, store1)" by (cases p)
    have s1: "store_inv store1"
      using save_new_inv [OF assms _ Some [unfolded p]]
      by (simp add: verified_inv_def new_User_def)
    have a: "verifyToken a = None \<and> verifyExpires a = None"
      using Some p by (auto simp: save_new_def Let_def new_User_def split: if_splits)
    have "store_inv (save store1 (a\<lparr>isVerified := True\<rparr>))"
      using s1 a by (intro save_inv) (simp_all add: verified_inv_def)
    then show ?thesis
      using na np ca Some p by (auto simp: create_admin_def Let_def split: option.splits)
  qed
qed

lemma verify_email_inv:
  assumes "store_inv store"
  shows "store_inv (snd (verify_email l store token e now))"
proof -
  have "store_inv (save store (u\<lparr>isVerified := True, verifyToken := None,
                                 verifyExpires := None\<rparr>))" for u
    using assms by (intro save_inv) (simp_all add: verified_inv_def)
  then show ?thesis
    using assms by (auto simp: verify_email_def Let_def split: option.splits)
qed

lemma resend_verification_inv:
  assumes "store_inv store"
  shows "store_inv (snd (resend_verification l store e rnd now))"
proof -
  have "store_inv (save store (snd (generateVerificationToken l u rnd now x)))"
    if "\<not> isVerified u" for u x
    using assms that
    by (intro save_inv) (simp_all add: verified_inv_def generateVerificationToken_def)
  then show ?thesis
    using assms
    by (auto simp: resend_verification_def Let_def split_beta split: option.splits)
qed

lemma markVerified_inv:
  assumes "store_inv store"
  shows "store_inv (snd (markVerified u store))"
  using assms by (simp add: markVerified_def Let_def save_inv verified_inv_def)

text \<open>
  C9. The empty store satisfies the invariant (a verified identity holds neither a
  token hash nor an expiry), and registration, the admin bootstrap route, the
  verification request, \<open>markVerified\<close> and the resend request each take a store that
  satisfies it to a store that satisfies it: whatever sets \<open>isVerified\<close> leaves both
  fields null, and a token is only given to an identity that is not verified (the
  resend request writes nothing for a verified one).
\<close>

theorem verification_invariant:
  "store_inv []
   \<and> (store_inv store \<longrightarrow>
        store_inv (snd (register l store n e pw new_id rnd now))
        \<and> store_inv (snd (create_admin l store n e pw new_id))
        \<and> store_inv (snd (verify_email l store token e now))
        \<and> store_inv (snd (markVerified u store))
        \<and> store_inv (snd (resend_verification l store e rnd now)))
   \<and> (findOne_email store e = Some v \<and> isVerified v \<longrightarrow>
        snd (resend_verification l store e rnd now) = store)"
proof -
  have "findOne_email store e = Some v \<and> isVerified v \<longrightarrow>
          snd (resend_verification l store e rnd now) = store"
    by (simp add: resend_verification_def)
  then show ?thesis
    by (simp add: store_inv_def [of "[]"] register_inv create_admin_inv verify_email_inv
          markVerified_inv resend_verification_inv)
qed

theorem verification_invariant_witness:
  "store_inv [bob, alice]
   \<and> snd (register sample_lib [bob, alice] ''Eve'' ''eve@example.com'' ''opensesame''
             ''u9'' ''5f2c'' 5000) = [bob, alice, eve]
   \<and> store_inv [bob, alice, eve]
   \<and> snd (create_admin sample_lib [bob, alice] [] ''admin@example.com'' ''root'' ''u0'')
       = [bob, alice, root_user]
   \<and> store_inv [bob, alice, root_user]
   \<and> snd (verify_email sample_lib [bob, alice] ''abc'' ''alice@example.com'' 5000)
       = [bob, alice\<lparr>isVerified := True, verifyToken := None, verifyExpires := None\<rparr>]
   \<and> store_inv [bob, alice\<lparr>isVerified := True, verifyToken := None, verifyExpires := None\<rparr>]
   \<and> snd (markVerified alice [bob, alice])
       = [bob, alice\<lparr>isVerified := True, verifyToken := None, verifyExpires := None\<rparr>]
   \<and> snd (resend_verification sample_lib [bob, alice] ''alice@example.com'' ''5f2c'' 3700000)
       = [bob, alice\<lparr>verifyToken := Some ''h5f2c'', verifyExpires := Some 90100000,
                      lastVerificationSent := Some 3700000\<rparr>]
   \<and> store_inv [bob, alice\<lparr>verifyToken := Some ''h5f2c'', verifyExpires := Some 90100000,
                           lastVerificationSent := Some 3700000\<rparr>]
   \<and> findOne_email [bob, alice] ''bob@example.com'' = Some bob \<and> isVerified bob
   \<and> snd (resend_verification sample_lib [bob, alice] ''bob@example.com'' ''5f2c'' 3700000)
       = [bob, alice]"
proof -
  have inv: "store_inv [bob, alice]"
    by (simp add: store_inv_def verified_inv_def bob_def alice_def new_User_def)
  have reg: "snd (register sample_lib [bob, alice] ''Eve'' ''eve@example.com'' ''opensesame''
                    ''u9'' ''5f2c'' 5000) = [bob, alice, eve]"
    by (simp add: register_def findOne_email_def findById_def save_new_def
          generateVerificationToken_def generateToken_def env_or_def Let_def
          sample_lib_def bob_def alice_def eve_def new_User_def)
  have adm: "snd (create_admin sample_lib [bob, alice] [] ''admin@example.com'' ''root'' ''u0'')
               = [bob, alice, root_user]"
    by (simp add: create_admin_def createAdmin_def findOne_role_def findOne_email_role_def
          findOne_email_def findById_def save_new_def save_def updateOne_def
          generateToken_def env_or_def or_else_def Let_def
          sample_lib_def bob_def alice_def root_user_def new_User_def)
  have ver: "snd (verify_email sample_lib [bob, alice] ''abc'' ''alice@example.com'' 5000)
               = [bob, alice\<lparr>isVerified := True, verifyToken := None, verifyExpires := None\<rparr>]"
    by (simp add: verify_email_def findOne_email_def save_def updateOne_def
          sample_lib_def bob_def alice_def new_User_def)
  have mark: "snd (markVerified alice [bob, alice])
               = [bob, alice\<lparr>isVerified := True, verifyToken := None, verifyExpires := None\<rparr>]"
    by (simp add: markVerified_def save_def updateOne_def Let_def bob_def alice_def new_User_def)
  have res: "snd (resend_verification sample_lib [bob, alice] ''alice@example.com'' ''5f2c'' 3700000)
               = [bob, alice\<lparr>verifyToken := Some ''h5f2c'', verifyExpires := Some 90100000,
                              lastVerificationSent := Some 3700000\<rparr>]"
    by (simp add: resend_verification_def findOne_email_def save_def updateOne_def
          generateVerificationToken_def COOLDOWN_SECONDS_def Let_def
          sample_lib_def bob_def alice_def new_User_def)
  have ver_bob: "findOne_email [bob, alice] ''bob@example.com'' = Some bob" "isVerified bob"
    by (simp_all add: findOne_email_def bob_def new_User_def)
  show ?thesis
    using inv reg adm ver mark res ver_bob
      verification_invariant
        [of "[bob, alice]" sample_lib "''Eve''" "''bob@example.com''" "''opensesame''"
            "''u9''" "''5f2c''" 3700000 "''abc''" alice bob]
      verification_invariant
        [of "[bob, alice]" sample_lib "''Eve''" "''eve@example.com''" "''opensesame''"
            "''u9''" "''5f2c''" 5000 "''abc''" alice]
      verification_invariant
        [of "[bob, alice]" sample_lib "[]" "''admin@example.com''" "''root''"
            "''u0''" "''5f2c''" 5000 "''abc''" alice]
      verification_invariant
        [of "[bob, alice]" sample_lib "''Eve''" "''alice@example.com''" "''opensesame''"
            "''u9''" "''5f2c''" 5000 "''abc''" alice]
      verification_invariant
        [of "[bob, alice]" sample_lib "''Eve''" "''alice@example.com''" "''opensesame''"
            "''u9''" "''5f2c''" 3700000 "''abc''" alice]
    by simp
qed

section \<open>Registration hands out a token before verification\<close>

lemma split_on_no_sep: "c \<notin> set t \<Longrightarrow> split_on c t = [t]"
  by (induction t) auto

lemma split_on_prefix: "c \<notin> set w \<Longrightarrow> split_on c (w @ c # t) = w # split_on c t"
  by (induction w) auto

lemma header_token_bearer:
  assumes "CHR '' '' \<notin> set token"
  shows "header_token (Some (''Bearer '' @ token)) = token"
proof -
  have "split_on CHR '' '' (''Bearer'' @ CHR '' '' # token)
          = ''Bearer'' # split_on CHR '' '' token"
    by (rule split_on_prefix) simp
  then show ?thesis using split_on_no_sep [OF assms] by (simp add: header_token_def)
qed

lemma register_created:
  assumes "register l store n e pw new_id rnd now = (Created token u, store')"
  shows "u = (new_User new_id n e (bcrypt_hash l pw) UserRole)
               \<lparr>verifyToken := Some (sha256_hex l rnd),
                verifyExpires := Some (now + 24 * 60 * 60 * 1000),
                lastVerificationSent := Some now\<rparr>"
    and "store' = store @ [u]"
    and "findById store new_id = None" and "findOne_email store e = None"
    and "generateToken l new_id = Some token"
  using assms
  by (auto simp: register_def generateVerificationToken_def save_new_def Let_def new_User_def
           split: option.splits if_splits)

text \<open>
  C10. When registration succeeds, its reply carries the token \<open>generateToken\<close> makes
  for the new identity, which is stored unverified. jsonwebtoken is a parameter: the
  statement is for a library that decodes the token it signed to the same id, the token
  being non-empty and free of spaces. Then \<open>authenticateToken\<close> lets a request with
  \<open>Bearer token\<close> through as that identity, at any time, while a login of the same
  identity is refused with \<open>EMAIL_NOT_VERIFIED\<close>. In general, once the token is decoded,
  the middleware lets the request through exactly when the identity exists, is active
  and is not locked: \<open>isVerified\<close> is not read.
\<close>

theorem register_token_accepted:
  "(register l store n e pw new_id rnd now = (Created token u, store')
    \<and> jwt_verify l token = Decoded new_id \<and> token \<noteq> [] \<and> CHR '' '' \<notin> set token \<longrightarrow>
      generateToken l (uid u) = Some token \<and> \<not> isVerified u
      \<and> findById store' (uid u) = Some u
      \<and> authenticateToken l store' (Some (''Bearer '' @ token)) later
          = Next (u\<lparr>password := []\<rparr>)
      \<and> login l store' e pw' later = (Fail 403 ''EMAIL_NOT_VERIFIED'', store'))
   \<and> (header_token h \<noteq> [] \<and> jwt_verify l (header_token h) = Decoded i \<longrightarrow>
        (authenticateToken l s h later = Next x)
          = (\<exists>v. findById s i = Some v \<and> isActive v \<and> \<not> isLocked v later
                 \<and> x = v\<lparr>password := []\<rparr>))"
    (is "(?registered \<longrightarrow> ?accepted) \<and> (?decoded \<longrightarrow> ?decision)")
proof -
  have accepted: ?accepted if a: ?registered
  proof -
    from a have reg: "register l store n e pw new_id rnd now = (Created token u, store')"
      and ver: "jwt_verify l token = Decoded new_id"
      and ne: "token \<noteq> []" and sp: "CHR '' '' \<notin> set token" by simp_all
    note r = register_created [OF reg]
    have id: "uid u = new_id" and em: "email u = e" and nv: "\<not> isVerified u"
      and act: "isActive u" and lk: "lockUntil u = None"
      using r(1) by (simp_all add: new_User_def)
    have fid: "findById store' new_id = Some u"
      unfolding r(2) findById_def using r(3) id
      by (intro find_append_new) (simp_all add: findById_def)
    have fem: "findOne_email store' e = Some u"
      unfolding r(2) findOne_email_def using r(4) em
      by (intro find_append_new) (simp_all add: findOne_email_def)
    have tok: "header_token (Some (''Bearer '' @ token)) = token"
      using sp by (rule header_token_bearer)
    have auth: "authenticateToken l store' (Some (''Bearer '' @ token)) later
                  = Next (u\<lparr>password := []\<rparr>)"
      unfolding authenticateToken_def tok using ver ne fid act lk by (simp add: isLocked_def)
    have lg: "login l store' e pw' later = (Fail 403 ''EMAIL_NOT_VERIFIED'', store')"
      using fem nv by (simp add: login_def)
    show ?thesis using r(5) id nv fid auth lg by simp
  qed
  have decision: ?decision if ?decoded
    using that by (auto simp: authenticateToken_def Let_def split: option.splits)
  show ?thesis using accepted decision by blast
qed

theorem register_token_accepted_witness:
  "register sample_lib [] ''Eve'' ''eve@example.com'' ''opensesame'' ''u9'' ''5f2c'' 5000
     = (Created ''ju9'' eve, [eve])
   \<and> jwt_verify sample_lib ''ju9'' = Decoded ''u9'' \<and> ''ju9'' \<noteq> [] \<and> CHR '' '' \<notin> set ''ju9''
   \<and> \<not> isVerified eve
   \<and> authenticateToken sample_lib [eve] (Some ''Bearer ju9'') 6000 = Next (eve\<lparr>password := []\<rparr>)
   \<and> login sample_lib [eve] ''eve@example.com'' ''opensesame'' 6000
       = (Fail 403 ''EMAIL_NOT_VERIFIED'', [eve])
   \<and> header_token (Some ''Bearer ju1'') = ''ju1''
   \<and> jwt_verify sample_lib ''ju1'' = Decoded ''u1''
   \<and> findById [alice] ''u1'' = Some alice \<and> \<not> isVerified alice
   \<and> isActive alice \<and> \<not> isLocked alice 6000
   \<and> authenticateToken sample_lib [alice] (Some ''Bearer ju1'') 6000
       = Next (alice\<lparr>password := []\<rparr>)"
proof -
  have reg: "register sample_lib [] ''Eve'' ''eve@example.com'' ''opensesame'' ''u9'' ''5f2c'' 5000
               = (Created ''ju9'' eve, [eve])"
    by (simp add: register_def findOne_email_def findById_def save_new_def
          generateVerificationToken_def generateToken_def env_or_def Let_def
          sample_lib_def eve_def new_User_def)
  have lib: "jwt_verify sample_lib ''ju9'' = Decoded ''u9''"
       "jwt_verify sample_lib ''ju1'' = Decoded ''u1''"
    by (simp_all add: sample_lib_def)
  have hdr: "header_token (Some ''Bearer ju1'') = ''ju1''"
    by (simp add: header_token_def)
  have alice: "findById [alice] ''u1'' = Some alice" "\<not> isVerified alice" "isActive alice"
      "\<not> isLocked alice 6000"
    by (simp_all add: findById_def isLocked_def alice_def new_User_def)
  show ?thesis
    using reg lib hdr alice
      register_token_accepted
        [of sample_lib "[]" "''Eve''" "''eve@example.com''" "''opensesame''" "''u9''" "''5f2c''"
            5000 "''ju9''" eve "[eve]" 6000 "''opensesame''" "Some ''Bearer ju1''" "''u1''"
            "[alice]" "alice\<lparr>password := []\<rparr>"]
    by simp
qed

section \<open>Token round trip and changed tokens\<close>




end
